theory Spec2Isabelle
  imports Complex_Main "HOL-Library.Sublist"
begin

section \<open>Helpers of the OpenAI handler: token counting and truncation\<close>

text \<open>
  A message is a Python dict from field names to strings; it is kept as the list of its
  items in insertion order, which is the order \<^verbatim>\<open>message.items()\<close> walks. The
  encoder is the object returned by tiktoken; only its \<^verbatim>\<open>encode\<close> method is
  used, so it is a function from a string to a list of tokens.
\<close>

type_synonym message = "(string \<times> string) list"

type_synonym 'tok encoder = "string \<Rightarrow> 'tok list"

datatype error =
    NotImplementedError string
  | KeyError string

subsection \<open>\<^verbatim>\<open>count_tokens\<close>\<close>

text \<open>The inner loop over the items of one message, with the running total.\<close>

fun count_items :: "'tok encoder \<Rightarrow> message \<Rightarrow> int \<Rightarrow> int" where
  "count_items encoder [] num_tokens = num_tokens"
| "count_items encoder ((key, val) # items) num_tokens =
     (let num_tokens = num_tokens + int (length (encoder val));
          num_tokens = (if key = ''name'' then num_tokens + (- 1) else num_tokens)
      in count_items encoder items num_tokens)"

text \<open>The outer loop over the messages: 4 for the framing, then the items.\<close>

fun count_messages :: "'tok encoder \<Rightarrow> message list \<Rightarrow> int \<Rightarrow> int" where
  "count_messages encoder [] num_tokens = num_tokens"
| "count_messages encoder (message # messages) num_tokens =
     count_messages encoder messages (count_items encoder message (num_tokens + 4))"

definition count_tokens :: "message list \<Rightarrow> 'tok encoder \<Rightarrow> string \<Rightarrow> error + int" where
  "count_tokens messages encoder model_name =
     (if sublist ''gpt-3.5-turbo'' model_name
      then Inr (count_messages encoder messages 0 + 2)
      else Inl (NotImplementedError
             (''_count_tokens() is not presently implemented for model '' @ model_name @ ''.'')))"

subsection \<open>\<^verbatim>\<open>truncate_msgs_for_token_limit\<close>\<close>

text \<open>
  One pass through the body of the \<^verbatim>\<open>while\<close> loop, up to the reassignment of
  \<^verbatim>\<open>messages\<close>: either the function returns, or the loop goes on with a new list.
  The slices are Python's: \<^verbatim>\<open>messages[:-1]\<close> is \<open>butlast\<close>,
  \<^verbatim>\<open>messages[2:]\<close> is \<open>drop 2\<close>, \<^verbatim>\<open>messages[1:-1]\<close> is
  \<open>drop 1\<close> of \<open>butlast\<close>; none of them raises on a short list.
\<close>

datatype 'a iteration = Return 'a | Continue 'a

definition truncate_iter :: "message list \<Rightarrow> string \<Rightarrow> message list \<Rightarrow> message list iteration" where
  "truncate_iter sys_priming truncate messages =
     (if length messages = 2 then Return (butlast messages)
      else if length messages = 1 then Return messages
      else if truncate = ''first'' then Continue (sys_priming @ drop 2 messages)
      else Continue (sys_priming @ drop 1 (butlast messages)))"

text \<open>
  The \<^verbatim>\<open>while n_tokens > max_tokens\<close> loop. Nothing in the source bounds the
  number of passes, so the loop is a partial function: \<open>None\<close> is a run that never
  returns, \<open>Some (Inl e)\<close> a raised error, \<open>Some (Inr ms)\<close> the returned list.
\<close>

partial_function (option) truncate_loop ::
  "'tok encoder \<Rightarrow> string \<Rightarrow> int \<Rightarrow> string \<Rightarrow> message list \<Rightarrow> message list \<Rightarrow> int
     \<Rightarrow> (error + message list) option" where
  "truncate_loop encoder model_name max_tokens truncate sys_priming messages n_tokens =
     (if n_tokens > max_tokens then
        (case truncate_iter sys_priming truncate messages of
           Return ms \<Rightarrow> Some (Inr ms)
         | Continue ms \<Rightarrow>
             (case count_tokens ms encoder model_name of
                Inl e \<Rightarrow> Some (Inl e)
              | Inr n \<Rightarrow> truncate_loop encoder model_name max_tokens truncate sys_priming ms n))
      else Some (Inr messages))"

declare truncate_loop.simps [code]

text \<open>
  \<^verbatim>\<open>tiktoken.encoding_for_model\<close> belongs to a library outside the repository: it is
  a parameter, which returns the encoder of a model or raises \<^verbatim>\<open>KeyError\<close>.
\<close>

definition truncate_msgs_for_token_limit ::
  "(string \<Rightarrow> error + 'tok encoder) \<Rightarrow> message list \<Rightarrow> string \<Rightarrow> int \<Rightarrow> string
     \<Rightarrow> (error + message list) option" where
  "truncate_msgs_for_token_limit encoding_for_model messages model_name max_tokens truncate =
     (case encoding_for_model model_name of
        Inl e \<Rightarrow> Some (Inl e)
      | Inr encoder \<Rightarrow>
          (let sys_priming = take 1 messages in
           case count_tokens messages encoder model_name of
             Inl e \<Rightarrow> Some (Inl e)
           | Inr n_tokens \<Rightarrow>
               truncate_loop encoder model_name max_tokens truncate sys_priming messages n_tokens))"

subsection \<open>The token count as the specification words it\<close>

text \<open>
  The specification's formula, for comparison with the loops above: per message 4, plus the
  encoded length of every field value, minus 1 if a \<^verbatim>\<open>name\<close> field is present;
  and 2 at the end.
\<close>

definition message_tokens :: "'tok encoder \<Rightarrow> message \<Rightarrow> int" where
  "message_tokens encoder message =
     4 + (\<Sum>(key, val) \<leftarrow> message. int (length (encoder val)))
       - (if ''name'' \<in> fst ` set message then 1 else 0)"

definition count_tokens_spec :: "message list \<Rightarrow> 'tok encoder \<Rightarrow> int" where
  "count_tokens_spec messages encoder = (\<Sum>message \<leftarrow> messages. message_tokens encoder message) + 2"

section \<open>The retry wrapper\<close>

subsection \<open>Python values and arithmetic\<close>

text \<open>
  The number of retries is the rounding of a quotient of two float logarithms, so it
  depends on how the floating-point operations round. In that computation a float is
  therefore a \<open>pyfloat\<close>: the real number a finite double stands for, an infinity, or NaN.
  What the processor's multiplication and division and the C library's logarithm return
  on finite operands is not in the repository: these are the parameters \<open>fp\<close>, as is the
  conversion of an int to a float, which fails on an int beyond the range of a double.
  (In the loop further down, the delays are real numbers and their products exact.)
\<close>

datatype pyfloat = Finite real | PosInf | NegInf | NaN

datatype fp =
  FP (fp_mul: "real \<Rightarrow> real \<Rightarrow> pyfloat")
     (fp_div: "real \<Rightarrow> real \<Rightarrow> pyfloat")
     (fp_log: "real \<Rightarrow> real")
     (fp_of_int: "int \<Rightarrow> real option")

text \<open>
  \<^verbatim>\<open>hour_budget\<close> is the one argument whose run-time type the source inspects, so it
  is a tagged value; a \<^verbatim>\<open>bool\<close> is an \<^verbatim>\<open>int\<close> in Python and falls under
  \<open>PyInt\<close>. \<^verbatim>\<open>initial_delay\<close> and \<^verbatim>\<open>exponential_base\<close> are finite floats.
\<close>

datatype pyval = PyFloat pyfloat | PyInt int | PyOther

text \<open>What the wrapper itself can raise. \<open>Reraised\<close> is \<^verbatim>\<open>raise e\<close>.\<close>

datatype 'e raised =
    Exception string
  | ValueError
  | ZeroDivisionError
  | OverflowError
  | AttributeError
  | Reraised 'e

text \<open>
  The \<^verbatim>\<open>body\<close> of a status error is whatever the response held: the decoded JSON
  object, \<^verbatim>\<open>None\<close> when there was no response, or the raw text of a reply that is
  not JSON. Only the first has a \<^verbatim>\<open>get\<close> method.
\<close>

datatype body = BodyDict "string \<rightharpoonup> string" | BodyNone | BodyStr string

text \<open>
  What the wrapped function can raise, by the first \<^verbatim>\<open>except\<close> clause that catches
  it: an instance of \<^verbatim>\<open>status_errors\<close> with its \<^verbatim>\<open>status_code\<close> and
  \<^verbatim>\<open>body\<close>; otherwise an instance of \<^verbatim>\<open>wait_errors\<close>; otherwise another
  \<^verbatim>\<open>openai.OpenAIError\<close> with its \<^verbatim>\<open>str\<close>; otherwise anything else.
\<close>

datatype 'e failure =
    StatusError int body
  | WaitError
  | OpenAIError string
  | OtherException 'e

fun str_nat :: "nat \<Rightarrow> string" where
  "str_nat n =
     (if n < 10 then [''0123456789'' ! n]
      else str_nat (n div 10) @ [''0123456789'' ! (n mod 10)])"

declare str_nat.simps [simp del]

definition str_int :: "int \<Rightarrow> string" where
  "str_int i = (if i < 0 then CHR ''-'' # str_nat (nat (- i)) else str_nat (nat i))"

text \<open>
  \<^verbatim>\<open>round\<close> of a finite float is exact: the nearest integer, a tie going to the even
  one. On NaN it raises \<^verbatim>\<open>ValueError\<close>, on an infinity \<^verbatim>\<open>OverflowError\<close>.
\<close>

definition py_round :: "real \<Rightarrow> int" where
  "py_round x =
     (let f = \<lfloor>x\<rfloor>; d = x - of_int f
      in if d < 1 / 2 then f
         else if 1 / 2 < d then f + 1
         else if even f then f else f + 1)"

fun round_float :: "pyfloat \<Rightarrow> 'e raised + int" where
  "round_float (Finite x) = Inr (py_round x)"
| "round_float NaN = Inl ValueError"
| "round_float PosInf = Inl OverflowError"
| "round_float NegInf = Inl OverflowError"

text \<open>
  \<^verbatim>\<open>math.log\<close> raises \<^verbatim>\<open>ValueError\<close> on zero, on a negative float and on minus
  infinity; it maps plus infinity and NaN to themselves.
\<close>

fun math_log :: "fp \<Rightarrow> pyfloat \<Rightarrow> 'e raised + pyfloat" where
  "math_log fp (Finite x) = (if x \<le> 0 then Inl ValueError else Inr (Finite (fp_log fp x)))"
| "math_log fp PosInf = Inr PosInf"
| "math_log fp NegInf = Inl ValueError"
| "math_log fp NaN = Inr NaN"

text \<open>Float multiplication never raises; an overflow gives an infinity.\<close>

fun float_mul :: "fp \<Rightarrow> pyfloat \<Rightarrow> real \<Rightarrow> pyfloat" where
  "float_mul fp (Finite x) y = fp_mul fp x y"
| "float_mul fp PosInf y = (if 0 < y then PosInf else if y < 0 then NegInf else NaN)"
| "float_mul fp NegInf y = (if 0 < y then NegInf else if y < 0 then PosInf else NaN)"
| "float_mul fp NaN y = NaN"

text \<open>Float division raises \<^verbatim>\<open>ZeroDivisionError\<close> on a zero divisor, and nothing else.\<close>

fun float_div :: "fp \<Rightarrow> pyfloat \<Rightarrow> pyfloat \<Rightarrow> 'e raised + pyfloat" where
  "float_div fp a (Finite d) =
     (if d = 0 then Inl ZeroDivisionError
      else Inr (case a of
                  Finite x \<Rightarrow> fp_div fp x d
                | PosInf \<Rightarrow> if 0 < d then PosInf else NegInf
                | NegInf \<Rightarrow> if 0 < d then NegInf else PosInf
                | NaN \<Rightarrow> NaN))"
| "float_div fp a NaN = Inr NaN"
| "float_div fp a PosInf = Inr (case a of Finite x \<Rightarrow> Finite 0 | _ \<Rightarrow> NaN)"
| "float_div fp a NegInf = Inr (case a of Finite x \<Rightarrow> Finite 0 | _ \<Rightarrow> NaN)"

subsection \<open>\<^verbatim>\<open>max_retries\<close>\<close>

text \<open>
  \<^verbatim>\<open>hour_budget * 3600\<close>, when \<^verbatim>\<open>hour_budget\<close> is a float or an int; \<open>None\<close> when
  it is neither (the \<^verbatim>\<open>isinstance\<close> test fails). The product of an int is an int and
  exact; the division that follows converts it to a float first.
\<close>

fun budget_seconds :: "fp \<Rightarrow> pyval \<Rightarrow> ('e raised + pyfloat) option" where
  "budget_seconds fp (PyFloat a) = Some (Inr (float_mul fp a 3600))"
| "budget_seconds fp (PyInt i) =
     Some (case fp_of_int fp (i * 3600) of
             None \<Rightarrow> Inl OverflowError
           | Some x \<Rightarrow> Inr (Finite x))"
| "budget_seconds fp PyOther = None"

text \<open>
  The rest of the expression inside \<^verbatim>\<open>try\<close>, in Python's order of evaluation: the
  quotient and its logarithm, the logarithm of the base, their quotient, \<^verbatim>\<open>round\<close>.
\<close>

definition retries_formula ::
  "fp \<Rightarrow> 'e raised + pyfloat \<Rightarrow> real \<Rightarrow> real \<Rightarrow> 'e raised + int" where
  "retries_formula fp seconds initial_delay exponential_base =
     (case seconds of
        Inl e \<Rightarrow> Inl e
      | Inr s \<Rightarrow>
          (case float_div fp s (Finite initial_delay) of
             Inl e \<Rightarrow> Inl e
           | Inr q \<Rightarrow>
               (case math_log fp q of
                  Inl e \<Rightarrow> Inl e
                | Inr l \<Rightarrow>
                    (case math_log fp (Finite exponential_base) of
                       Inl e \<Rightarrow> Inl e
                     | Inr b \<Rightarrow>
                         (case float_div fp l b of
                            Inl e \<Rightarrow> Inl e
                          | Inr r \<Rightarrow> round_float r)))))"

text \<open>
  Lines 53 to 63: only \<^verbatim>\<open>ValueError\<close> is caught; any other error leaves the
  wrapper. Then \<^verbatim>\<open>max(1, max_retries)\<close>.
\<close>

definition max_retries_of :: "fp \<Rightarrow> pyval \<Rightarrow> real \<Rightarrow> real \<Rightarrow> 'e raised + int" where
  "max_retries_of fp hour_budget initial_delay exponential_base =
     (case budget_seconds fp hour_budget of
        None \<Rightarrow> Inr (max 1 10)
      | Some seconds \<Rightarrow>
          (case retries_formula fp seconds initial_delay exponential_base of
             Inl ValueError \<Rightarrow> Inr (max 1 10)
           | Inl e \<Rightarrow> Inl e
           | Inr max_retries \<Rightarrow> Inr (max 1 max_retries)))"

text \<open>
  For the examples: the default \<^verbatim>\<open>hour_budget\<close>, which is the double nearest to 0.3,
  and floating-point operations that do not round.
\<close>

definition default_hour_budget :: pyval where
  "default_hour_budget = PyFloat (Finite (5404319552844595 / 18014398509481984))"

definition exact_fp :: fp where
  "exact_fp = FP (\<lambda>x y. Finite (x * y)) (\<lambda>x y. Finite (x / y)) ln (\<lambda>i. Some (of_int i))"

subsection \<open>The loop\<close>

text \<open>
  A run of the wrapper: what it returns or raises, how often it called the wrapped
  function, and the arguments of its calls of \<^verbatim>\<open>time.sleep\<close> in order.
\<close>

datatype ('e, 'a) run =
  Run (result: "'e raised + 'a") (calls: nat) (sleeps: "real list")

text \<open>
  The message of line 71. \<^verbatim>\<open>e.body.get\<close> exists only on a dict; on \<^verbatim>\<open>None\<close> or
  a string the attribute lookup raises \<^verbatim>\<open>AttributeError\<close>.
\<close>

fun status_message :: "int \<Rightarrow> body \<Rightarrow> 'e raised + string" where
  "status_message status_code (BodyDict d) =
     Inr (''Error status '' @ str_int status_code @ '' raised by OpenAI API: '' @
       (case d ''message'' of
          Some message \<Rightarrow> message
        | None \<Rightarrow> ''Please refer to `https://platform.openai.com/docs/guides/error-codes` for more information.''))"
| "status_message status_code BodyNone = Inl AttributeError"
| "status_message status_code (BodyStr s) = Inl AttributeError"

definition retries_message :: "int \<Rightarrow> string" where
  "retries_message max_retries =
     ''Maximum number of retries ('' @ str_int max_retries @ '') exceeded.''"

definition general_message :: "string \<Rightarrow> string" where
  "general_message e =
     ''General '' @ e @ '' error raised by OpenAI. Please refer to `https://platform.openai.com/docs/guides/error-codes` for more information.''"

text \<open>
  The wrapped function is called with the same arguments each time; \<open>func i\<close> is what its
  call number \<open>i\<close> (from 0) returns or raises. \<open>rand i\<close> is the value of call number
  \<open>i\<close> of \<^verbatim>\<open>random.random()\<close>, which is made once before every sleep, so
  its number is the number of sleeps so far. \<^verbatim>\<open>time.sleep\<close> raises
  \<^verbatim>\<open>ValueError\<close> on a negative argument; the handler does not catch it. An error
  raised inside a handler leaves the wrapper: the other clauses of the same
  \<^verbatim>\<open>try\<close> do not catch it.
\<close>

function retry_loop ::
  "(nat \<Rightarrow> 'e failure + 'a) \<Rightarrow> (nat \<Rightarrow> real) \<Rightarrow> bool \<Rightarrow> real \<Rightarrow> int
     \<Rightarrow> int \<Rightarrow> real \<Rightarrow> nat \<Rightarrow> real list \<Rightarrow> ('e, 'a) run" where
  "retry_loop func rand jitter exponential_base max_retries num_retries delay n slept =
     (case func n of
        Inr v \<Rightarrow> Run (Inr v) (Suc n) slept
      | Inl (StatusError status_code body) \<Rightarrow>
          (case status_message status_code body of
             Inl e \<Rightarrow> Run (Inl e) (Suc n) slept
           | Inr message \<Rightarrow> Run (Inl (Exception message)) (Suc n) slept)
      | Inl WaitError \<Rightarrow>
          (if num_retries + 1 > max_retries
           then Run (Inl (Exception (retries_message max_retries))) (Suc n) slept
           else if delay * (exponential_base * (1 + of_bool jitter * rand (length slept))) < 0
           then Run (Inl ValueError) (Suc n) slept
           else retry_loop func rand jitter exponential_base max_retries (num_retries + 1)
                  (delay * (exponential_base * (1 + of_bool jitter * rand (length slept))))
                  (Suc n)
                  (slept @ [delay * (exponential_base * (1 + of_bool jitter * rand (length slept)))]))
      | Inl (OpenAIError e) \<Rightarrow>
          Run (Inl (Exception (general_message e))) (Suc n) slept
      | Inl (OtherException e) \<Rightarrow>
          Run (Inl (Reraised e)) (Suc n) slept)"
  by pat_completeness auto
termination
  by (relation "measure (\<lambda>(func, rand, jitter, exponential_base, max_retries, num_retries,
                            delay, n, slept). nat (max_retries - num_retries))") auto

declare retry_loop.simps [simp del]

definition wrapper ::
  "fp \<Rightarrow> real \<Rightarrow> pyval \<Rightarrow> bool \<Rightarrow> real \<Rightarrow> (nat \<Rightarrow> real) \<Rightarrow> (nat \<Rightarrow> 'e failure + 'a)
     \<Rightarrow> ('e, 'a) run" where
  "wrapper fp initial_delay hour_budget jitter exponential_base rand func =
     (case max_retries_of fp hour_budget initial_delay exponential_base of
        Inl e \<Rightarrow> Run (Inl e) 0 []
      | Inr max_retries \<Rightarrow>
          retry_loop func rand jitter exponential_base max_retries 0 initial_delay 0 [])"


section \<open>Properties of the token counter and the truncator\<close>

subsection \<open>Auxiliary facts\<close>

lemma count_tokens_supported:
  "sublist ''gpt-3.5-turbo'' model_name \<Longrightarrow>
     count_tokens ms encoder model_name = Inr (count_messages encoder ms 0 + 2)"
  by (simp add: count_tokens_def)

lemma truncate_loop_within:
  "n_tokens \<le> max_tokens \<Longrightarrow>
     truncate_loop encoder model_name max_tokens truncate sys_priming messages n_tokens
       = Some (Inr messages)"
  by (subst truncate_loop.simps) simp

lemma truncate_loop_two:
  "max_tokens < n_tokens \<Longrightarrow> length messages = 2 \<Longrightarrow>
     truncate_loop encoder model_name max_tokens truncate sys_priming messages n_tokens
       = Some (Inr (butlast messages))"
  by (subst truncate_loop.simps) (simp add: truncate_iter_def)

lemma truncate_loop_one:
  "max_tokens < n_tokens \<Longrightarrow> length messages = 1 \<Longrightarrow>
     truncate_loop encoder model_name max_tokens truncate sys_priming messages n_tokens
       = Some (Inr messages)"
  by (subst truncate_loop.simps) (simp add: truncate_iter_def)

lemma truncate_loop_shrink:
  "max_tokens < n_tokens \<Longrightarrow> length messages \<noteq> 2 \<Longrightarrow> length messages \<noteq> 1 \<Longrightarrow>
   sublist ''gpt-3.5-turbo'' model_name \<Longrightarrow>
     truncate_loop encoder model_name max_tokens truncate sys_priming messages n_tokens
       = truncate_loop encoder model_name max_tokens truncate sys_priming
           (if truncate = ''first'' then sys_priming @ drop 2 messages
            else sys_priming @ drop 1 (butlast messages))
           (count_messages encoder
              (if truncate = ''first'' then sys_priming @ drop 2 messages
               else sys_priming @ drop 1 (butlast messages)) 0 + 2)"
  by (subst truncate_loop.simps) (simp add: truncate_iter_def count_tokens_supported)

lemma butlast_two: "length ms = 2 \<Longrightarrow> butlast ms = [hd ms]"
  by (cases ms; cases "tl ms") auto

lemma truncate_loop_total:
  assumes "sublist ''gpt-3.5-turbo'' model_name"
  shows "ms \<noteq> [] \<Longrightarrow> hd ms = p \<Longrightarrow>
     \<exists>out. truncate_loop encoder model_name max_tokens truncate [p] ms n = Some (Inr out)
         \<and> out \<noteq> [] \<and> hd out = p \<and> length out \<le> length ms"
proof (induction "length ms" arbitrary: ms n rule: less_induct)
  case less
  show ?case
  proof (cases "n \<le> max_tokens")
    case True
    then show ?thesis using less.prems by (simp add: truncate_loop_within)
  next
    case False
    then have gt: "max_tokens < n" by simp
    consider "length ms = 2" | "length ms = 1" | "3 \<le> length ms"
      using less.prems(1) by (cases ms; cases "tl ms"; cases "tl (tl ms)") auto
    then show ?thesis
    proof cases
      case 1
      then show ?thesis using gt less.prems by (simp add: truncate_loop_two butlast_two)
    next
      case 2
      then show ?thesis using gt less.prems by (simp add: truncate_loop_one)
    next
      case 3
      define ms' where "ms' = (if truncate = ''first'' then [p] @ drop 2 ms
                    else [p] @ drop 1 (butlast ms))"
      have len: "length ms' < length ms" using 3 by (auto simp add: ms'_def)
      have ne: "ms' \<noteq> []" and hd: "hd ms' = p" by (simp_all add: ms'_def)
      from less.hyps [OF len ne hd]
      obtain out where "truncate_loop encoder model_name max_tokens truncate [p] ms'
          (count_messages encoder ms' 0 + 2) = Some (Inr out)" "out \<noteq> []" "hd out = p"
          "length out \<le> length ms'"
        by blast
      moreover have "truncate_loop encoder model_name max_tokens truncate [p] ms n
        = truncate_loop encoder model_name max_tokens truncate [p] ms'
          (count_messages encoder ms' 0 + 2)"
        using 3 gt assms unfolding ms'_def by (subst truncate_loop_shrink) auto
      ultimately show ?thesis using len by auto
    qed
  qed
qed

lemma truncate_loop_empty_aux:
  assumes "truncate_loop encoder model_name max_tokens truncate sys_priming messages n_tokens = Some y"
  shows "\<not> (sublist ''gpt-3.5-turbo'' model_name \<and> max_tokens < 2 \<and> sys_priming = []
            \<and> messages = [] \<and> n_tokens = 2)"
proof (rule truncate_loop.raw_induct
    [where P = "\<lambda>encoder model_name max_tokens truncate sys_priming messages n_tokens y.
       \<not> (sublist ''gpt-3.5-turbo'' model_name \<and> max_tokens < 2 \<and> sys_priming = []
            \<and> messages = [] \<and> n_tokens = 2)", OF _ assms])
  fix loop :: "'a encoder \<Rightarrow> string \<Rightarrow> int \<Rightarrow> string \<Rightarrow> message list \<Rightarrow> message list \<Rightarrow> int
     \<Rightarrow> (error + message list) option"
  fix encoder model_name max_tokens truncate sys_priming messages n_tokens y
  assume IH: "\<And>encoder model_name max_tokens truncate sys_priming messages n_tokens y.
     loop encoder model_name max_tokens truncate sys_priming messages n_tokens = Some y \<Longrightarrow>
       \<not> (sublist ''gpt-3.5-turbo'' model_name \<and> max_tokens < 2 \<and> sys_priming = []
            \<and> messages = [] \<and> n_tokens = 2)"
  assume body: "(if n_tokens > max_tokens then
        (case truncate_iter sys_priming truncate messages of
           Return ms \<Rightarrow> Some (Inr ms)
         | Continue ms \<Rightarrow>
             (case count_tokens ms encoder model_name of
                Inl e \<Rightarrow> Some (Inl e)
              | Inr n \<Rightarrow> loop encoder model_name max_tokens truncate sys_priming ms n))
      else Some (Inr messages)) = Some y"
  show "\<not> (sublist ''gpt-3.5-turbo'' model_name \<and> max_tokens < 2 \<and> sys_priming = []
            \<and> messages = [] \<and> n_tokens = 2)"
  proof
    assume a: "sublist ''gpt-3.5-turbo'' model_name \<and> max_tokens < 2 \<and> sys_priming = []
            \<and> messages = [] \<and> n_tokens = 2"
    with body have "loop encoder model_name max_tokens truncate [] [] 2 = Some y"
      by (auto simp add: truncate_iter_def count_tokens_def split: if_splits)
    from IH [OF this] a show False by simp
  qed
qed

lemma count_list_distinct:
  "distinct xs \<Longrightarrow> count_list xs a = (if a \<in> set xs then 1 else 0)"
  by (induction xs) auto

lemma count_items_sum:
  "count_items encoder items n =
     n + (\<Sum>(key, val) \<leftarrow> items. int (length (encoder val)))
       - int (count_list (map fst items) ''name'')"
  by (induction encoder items n rule: count_items.induct) (auto simp: Let_def)

lemma count_items_distinct:
  "distinct (map fst items) \<Longrightarrow>
     count_items encoder items (n + 4) = n + message_tokens encoder items"
  by (simp add: count_items_sum message_tokens_def count_list_distinct)

lemma count_messages_sum:
  "\<forall>m \<in> set messages. distinct (map fst m) \<Longrightarrow>
     count_messages encoder messages n = n + (\<Sum>m \<leftarrow> messages. message_tokens encoder m)"
  by (induction messages arbitrary: n) (simp_all add: count_items_distinct)

subsection \<open>Claims about the truncator and the token counter\<close>

text \<open>
  C5. Given a supported model (tiktoken knows it and its name contains the chat-family
  marker), the truncator returns a list, without raising and without looping forever, on every
  non-empty message list and for every maximum and either side flag. Every pass of the loop
  on a non-empty list either returns (and then the list has 2 or 1 messages) or goes on with a
  list that is shorter by exactly one message.
\<close>

theorem truncate_terminates:
  assumes "messages \<noteq> []"
    and "encoding_for_model model_name = Inr encoder"
    and "sublist ''gpt-3.5-turbo'' model_name"
  shows "(\<exists>out. truncate_msgs_for_token_limit encoding_for_model messages model_name
                  max_tokens truncate = Some (Inr out))
       \<and> (\<forall>ms. ms \<noteq> [] \<longrightarrow>
            (case truncate_iter (take 1 messages) truncate ms of
               Return out \<Rightarrow> length ms = 2 \<or> length ms = 1
             | Continue ms' \<Rightarrow> Suc (length ms') = length ms))"
proof
  have "take 1 messages = [hd messages]"
    using assms(1) by (cases messages) simp_all
  moreover obtain out where
    "truncate_loop encoder model_name max_tokens truncate [hd messages] messages
       (count_messages encoder messages 0 + 2) = Some (Inr out)"
    using truncate_loop_total [OF assms(3) assms(1) refl] by blast
  ultimately show "\<exists>out. truncate_msgs_for_token_limit encoding_for_model messages model_name
                  max_tokens truncate = Some (Inr out)"
    using assms(2,3)
    by (simp add: truncate_msgs_for_token_limit_def count_tokens_supported)
next
  have one: "length (take 1 messages) = 1"
    using assms(1) by (cases messages) simp_all
  show "\<forall>ms. ms \<noteq> [] \<longrightarrow>
            (case truncate_iter (take 1 messages) truncate ms of
               Return out \<Rightarrow> length ms = 2 \<or> length ms = 1
             | Continue ms' \<Rightarrow> Suc (length ms') = length ms)"
  proof (intro allI impI)
    fix ms :: "message list"
    assume "ms \<noteq> []"
    then consider "length ms = 2" | "length ms = 1" | "3 \<le> length ms"
      by (cases ms; cases "tl ms"; cases "tl (tl ms)") auto
    then show "case truncate_iter (take 1 messages) truncate ms of
               Return out \<Rightarrow> length ms = 2 \<or> length ms = 1
             | Continue ms' \<Rightarrow> Suc (length ms') = length ms"
    proof cases
      case 1
      then show ?thesis by (simp add: truncate_iter_def)
    next
      case 2
      then show ?thesis by (simp add: truncate_iter_def)
    next
      case 3
      with one show ?thesis
        unfolding truncate_iter_def by (auto simp del: length_take)
    qed
  qed
qed

theorem truncate_terminates_witness:
  "\<exists>out. truncate_msgs_for_token_limit (\<lambda>m. Inr (\<lambda>s. s))
      [[(''role'', ''system''), (''content'', ''a'')],
       [(''role'', ''user''), (''name'', ''bob''), (''content'', ''hi!'')],
       [(''role'', ''user''), (''content'', ''xyz'')]]
      ''gpt-3.5-turbo-0301'' 20 ''first'' = Some (Inr out)"
proof -
  have s: "sublist ''gpt-3.5-turbo'' ''gpt-3.5-turbo-0301''" by code_simp
  show ?thesis
    using truncate_terminates [where encoding_for_model = "\<lambda>m. Inr (\<lambda>s. s)" and encoder = "\<lambda>s. s",
        OF _ refl s]
    by simp
qed

text \<open>
  C6. When the token count exceeds the maximum and exactly 2 messages remain, the loop
  returns all but the last of them, which is the first message alone; when exactly 1 message
  remains, it returns that message unchanged. This holds at any pass of the loop, and so
  for the truncator called on such a list.
\<close>

theorem truncate_terminal_cases:
  assumes "max_tokens < n_tokens"
  shows "(length messages = 2 \<longrightarrow>
            truncate_loop encoder model_name max_tokens truncate sys_priming messages n_tokens
              = Some (Inr [hd messages])
          \<and> butlast messages = [hd messages])
       \<and> (length messages = 1 \<longrightarrow>
            truncate_loop encoder model_name max_tokens truncate sys_priming messages n_tokens
              = Some (Inr messages))
       \<and> (encoding_for_model model_name = Inr encoder
            \<and> count_tokens messages encoder model_name = Inr n_tokens \<longrightarrow>
          (length messages = 2 \<longrightarrow>
             truncate_msgs_for_token_limit encoding_for_model messages model_name
               max_tokens truncate = Some (Inr [hd messages]))
        \<and> (length messages = 1 \<longrightarrow>
             truncate_msgs_for_token_limit encoding_for_model messages model_name
               max_tokens truncate = Some (Inr messages)))"
  using assms
  by (simp add: truncate_msgs_for_token_limit_def truncate_loop_two truncate_loop_one butlast_two)

theorem truncate_terminal_cases_witness:
  "truncate_msgs_for_token_limit (\<lambda>m. Inr (\<lambda>s. s))
      [[(''role'', ''system''), (''content'', ''a'')],
       [(''role'', ''user''), (''content'', ''xyz'')]]
      ''gpt-3.5-turbo-0301'' 20 ''first''
     = Some (Inr [[(''role'', ''system''), (''content'', ''a'')]])
   \<and> truncate_msgs_for_token_limit (\<lambda>m. Inr (\<lambda>s. s))
      [[(''role'', ''system''), (''content'', ''a'')]]
      ''gpt-3.5-turbo-0301'' 5 ''last''
     = Some (Inr [[(''role'', ''system''), (''content'', ''a'')]])"
proof -
  have s: "sublist ''gpt-3.5-turbo'' ''gpt-3.5-turbo-0301''" by code_simp
  have two: "count_tokens [[(''role'', ''system''), (''content'', ''a'')],
       [(''role'', ''user''), (''content'', ''xyz'')]] (\<lambda>s. s) ''gpt-3.5-turbo-0301'' = Inr 24"
    using s by (simp add: count_tokens_def)
  have one: "count_tokens [[(''role'', ''system''), (''content'', ''a'')]] (\<lambda>s. s)
       ''gpt-3.5-turbo-0301'' = Inr 13"
    using s by (simp add: count_tokens_def)
  have "(20::int) < 24" and "(5::int) < 13" by simp_all
  from truncate_terminal_cases [OF this(1), where encoding_for_model = "\<lambda>m. Inr (\<lambda>s. s)"
        and encoder = "\<lambda>s. s" and model_name = "''gpt-3.5-turbo-0301''" and truncate = "''first''"
        and messages = "[[(''role'', ''system''), (''content'', ''a'')],
                         [(''role'', ''user''), (''content'', ''xyz'')]]"]
       truncate_terminal_cases [OF this(2), where encoding_for_model = "\<lambda>m. Inr (\<lambda>s. s)"
        and encoder = "\<lambda>s. s" and model_name = "''gpt-3.5-turbo-0301''" and truncate = "''last''"
        and messages = "[[(''role'', ''system''), (''content'', ''a'')]]"]
       two one
  show ?thesis by simp
qed

text \<open>
  C7. Given a supported model, on every non-empty message list, for every maximum and
  either side flag, the truncator returns a non-empty list whose first message is the first
  message of the input.
\<close>

theorem truncate_keeps_priming:
  assumes "messages \<noteq> []"
    and "encoding_for_model model_name = Inr encoder"
    and "sublist ''gpt-3.5-turbo'' model_name"
  shows "\<exists>out. truncate_msgs_for_token_limit encoding_for_model messages model_name
                 max_tokens truncate = Some (Inr out)
             \<and> out \<noteq> [] \<and> hd out = hd messages"
proof -
  have "take 1 messages = [hd messages]"
    using assms(1) by (cases messages) simp_all
  moreover obtain out where
    "truncate_loop encoder model_name max_tokens truncate [hd messages] messages
       (count_messages encoder messages 0 + 2) = Some (Inr out)"
    "out \<noteq> []" "hd out = hd messages"
    using truncate_loop_total [OF assms(3) assms(1) refl] by blast
  ultimately show ?thesis
    using assms(2,3)
    by (simp add: truncate_msgs_for_token_limit_def count_tokens_supported)
qed

theorem truncate_keeps_priming_witness:
  "\<exists>out. truncate_msgs_for_token_limit (\<lambda>m. Inr (\<lambda>s. s))
      [[(''role'', ''system''), (''content'', ''a'')],
       [(''role'', ''user''), (''name'', ''bob''), (''content'', ''hi!'')],
       [(''role'', ''user''), (''content'', ''xyz'')]]
      ''gpt-3.5-turbo-0301'' 30 ''last'' = Some (Inr out)
     \<and> out \<noteq> [] \<and> hd out = [(''role'', ''system''), (''content'', ''a'')]"
proof -
  have s: "sublist ''gpt-3.5-turbo'' ''gpt-3.5-turbo-0301''" by code_simp
  show ?thesis
    using truncate_keeps_priming [where encoding_for_model = "\<lambda>m. Inr (\<lambda>s. s)"
        and encoder = "\<lambda>s. s" and max_tokens = 30 and truncate = "''last''"
        and messages = "[[(''role'', ''system''), (''content'', ''a'')],
                         [(''role'', ''user''), (''name'', ''bob''), (''content'', ''hi!'')],
                         [(''role'', ''user''), (''content'', ''xyz'')]]", OF _ refl s]
    by simp
qed

text \<open>
  C8. A message list whose token count does not exceed the maximum is returned unchanged.
\<close>

theorem truncate_within_budget:
  assumes "encoding_for_model model_name = Inr encoder"
    and "count_tokens messages encoder model_name = Inr n_tokens"
    and "n_tokens \<le> max_tokens"
  shows "truncate_msgs_for_token_limit encoding_for_model messages model_name max_tokens truncate
           = Some (Inr messages)"
  using assms by (simp add: truncate_msgs_for_token_limit_def truncate_loop_within)

theorem truncate_within_budget_witness:
  "truncate_msgs_for_token_limit (\<lambda>m. Inr (\<lambda>s. s))
      [[(''role'', ''system''), (''content'', ''a'')],
       [(''role'', ''user''), (''content'', ''xyz'')]]
      ''gpt-3.5-turbo-0301'' 24 ''first''
     = Some (Inr [[(''role'', ''system''), (''content'', ''a'')],
                  [(''role'', ''user''), (''content'', ''xyz'')]])"
proof -
  have s: "sublist ''gpt-3.5-turbo'' ''gpt-3.5-turbo-0301''" by code_simp
  have two: "count_tokens [[(''role'', ''system''), (''content'', ''a'')],
       [(''role'', ''user''), (''content'', ''xyz'')]] (\<lambda>s. s) ''gpt-3.5-turbo-0301'' = Inr 24"
    using s by (simp add: count_tokens_def)
  show ?thesis
    by (rule truncate_within_budget [OF refl two]) simp
qed

text \<open>
  C9. For a model name that contains the chat-family marker and any encoder, the token
  count is the specification's formula: the sum over the messages of 4, plus the encoded
  length of every field value, minus 1 if a \<^verbatim>\<open>name\<close> field is present, and 2 at
  the end. A message is a dict, so its keys are distinct. For the one message with role
  \<^verbatim>\<open>system\<close> and content \<^verbatim>\<open>a\<close> the count is
  4 + tokens(system) + tokens(a) + 2.
\<close>

theorem count_tokens_formula:
  assumes "sublist ''gpt-3.5-turbo'' model_name"
    and "\<forall>m \<in> set messages. distinct (map fst m)"
  shows "count_tokens messages encoder model_name = Inr (count_tokens_spec messages encoder)
     \<and> count_tokens [[(''role'', ''system''), (''content'', ''a'')]] encoder model_name
         = Inr (4 + int (length (encoder ''system'')) + int (length (encoder ''a'')) + 2)"
  using assms by (simp add: count_tokens_def count_tokens_spec_def count_messages_sum)

theorem count_tokens_formula_witness:
  "sublist ''gpt-3.5-turbo'' ''gpt-3.5-turbo-0301''
   \<and> count_tokens [[(''role'', ''system''), (''content'', ''a'')],
                    [(''role'', ''user''), (''name'', ''bob''), (''content'', ''hi!'')]]
        (\<lambda>s. s) ''gpt-3.5-turbo-0301'' = Inr 26"
proof -
  have s: "sublist ''gpt-3.5-turbo'' ''gpt-3.5-turbo-0301''" by code_simp
  have d: "\<forall>m \<in> set [[(''role'', ''system''), (''content'', ''a'')],
                    [(''role'', ''user''), (''name'', ''bob''), (''content'', ''hi!'')]].
             distinct (map fst m)"
    by simp
  show ?thesis
    using s count_tokens_formula [OF s d, of "\<lambda>s. s"]
    by (simp add: count_tokens_spec_def message_tokens_def)
qed

text \<open>
  C10. Given a supported model, the token count of the empty list is 2, a pass of the loop
  maps the empty list (with its empty priming slice) to itself, and the truncator called
  on the empty list returns exactly when the maximum is at least 2; it then returns the
  empty list. Below 2 it never returns.
\<close>

theorem truncate_empty:
  assumes "encoding_for_model model_name = Inr encoder"
    and "sublist ''gpt-3.5-turbo'' model_name"
  shows "count_tokens [] encoder model_name = Inr 2
       \<and> truncate_iter (take 1 []) truncate [] = Continue []
       \<and> (truncate_msgs_for_token_limit encoding_for_model [] model_name max_tokens truncate
            \<noteq> None \<longleftrightarrow> 2 \<le> max_tokens)
       \<and> (2 \<le> max_tokens \<longrightarrow>
            truncate_msgs_for_token_limit encoding_for_model [] model_name max_tokens truncate
              = Some (Inr []))"
proof -
  have count: "count_tokens [] encoder model_name = Inr 2"
    using assms(2) by (simp add: count_tokens_def)
  have run: "truncate_msgs_for_token_limit encoding_for_model [] model_name max_tokens truncate
      = truncate_loop encoder model_name max_tokens truncate [] [] 2"
    using assms(1) count by (simp add: truncate_msgs_for_token_limit_def)
  have ge: "truncate_loop encoder model_name max_tokens truncate [] [] 2 = Some (Inr [])"
    if "2 \<le> max_tokens"
    using that by (simp add: truncate_loop_within)
  have lt: "truncate_loop encoder model_name max_tokens truncate [] [] 2 = None"
    if "max_tokens < 2"
  proof (cases "truncate_loop encoder model_name max_tokens truncate [] [] 2")
    case None
    then show ?thesis .
  next
    case (Some y)
    from truncate_loop_empty_aux [OF this] assms(2) that show ?thesis by simp
  qed
  have "truncate_iter (take 1 []) truncate [] = Continue []"
    by (simp add: truncate_iter_def)
  with count run ge lt show ?thesis
    by (cases "2 \<le> max_tokens") simp_all
qed

theorem truncate_empty_witness:
  "truncate_msgs_for_token_limit (\<lambda>m. Inr (\<lambda>s. s)) [] ''gpt-3.5-turbo-0301'' 2 ''first''
     = Some (Inr [])
   \<and> truncate_msgs_for_token_limit (\<lambda>m. Inr (\<lambda>s. s)) [] ''gpt-3.5-turbo-0301'' 1 ''first''
     = None"
proof -
  have s: "sublist ''gpt-3.5-turbo'' ''gpt-3.5-turbo-0301''" by code_simp
  from truncate_empty [where encoding_for_model = "\<lambda>m. Inr (\<lambda>s. s)" and encoder = "\<lambda>s. s",
        OF refl s, of "''first''" 2]
       truncate_empty [where encoding_for_model = "\<lambda>m. Inr (\<lambda>s. s)" and encoder = "\<lambda>s. s",
        OF refl s, of "''first''" 1]
  show ?thesis by simp
qed

section \<open>Properties of the retry wrapper\<close>

subsection \<open>Auxiliary facts\<close>





lemma py_round_near:
  assumes "of_int n - 1 / 2 < x" and "x < of_int n + 1 / 2"
  shows "py_round x = n"
proof -
  have "\<lfloor>x\<rfloor> = n \<or> \<lfloor>x\<rfloor> = n - 1"
    using assms by linarith
  then show ?thesis
  proof
    assume f: "\<lfloor>x\<rfloor> = n"
    then have "x - of_int n < 1 / 2" using assms by linarith
    with f show ?thesis by (simp add: py_round_def Let_def)
  next
    assume f: "\<lfloor>x\<rfloor> = n - 1"
    then have "1 / 2 < x - of_int (n - 1)" using assms by simp
    with f show ?thesis by (simp add: py_round_def Let_def)
  qed
qed


lemma log2_bounds:
  assumes "725 \<le> (q::real)" and "q \<le> 1448"
  shows "19 / 2 < ln q / ln 2" and "ln q / ln 2 < 21 / 2"
proof -
  have pos: "0 < ln (2::real)" by simp
  have q: "0 < q" using assms(1) by simp
  have a: "ln (524288::real) = 19 * ln 2"
    using ln_realpow [of "2::real" 19] by simp
  have c: "ln (2097152::real) = 21 * ln 2"
    using ln_realpow [of "2::real" 21] by simp
  have b: "ln (q ^ 2) = 2 * ln q"
    using ln_realpow [of q 2] q by simp
  have "725 ^ 2 \<le> q ^ 2"
    using assms(1) by (intro power_mono) simp_all
  then have "(524288::real) < q ^ 2" by simp
  then have "ln (524288::real) < ln (q ^ 2)"
    by (subst ln_less_cancel_iff) (use q in simp_all)
  then have lo: "19 * ln (2::real) < 2 * ln q"
    by (simp only: a b)
  have "q ^ 2 \<le> 1448 ^ 2"
    using assms(2) q by (intro power_mono) simp_all
  then have "q ^ 2 < (2097152::real)" by simp
  then have "ln (q ^ 2) < ln (2097152::real)"
    by (subst ln_less_cancel_iff) (use q in simp_all)
  then have hi: "2 * ln q < 21 * ln (2::real)"
    by (simp only: b c)
  show "19 / 2 < ln q / ln 2"
    using lo pos by (simp add: pos_less_divide_eq)
  show "ln q / ln 2 < 21 / 2"
    using hi pos by (simp add: pos_divide_less_eq)
qed

lemma round_log2_10:
  assumes "725 \<le> (q::real)" and "q \<le> 1448"
  shows "py_round (ln q / ln 2) = 10"
  using log2_bounds [OF assms] by (intro py_round_near) simp_all

lemma default_max_retries:
  "(max_retries_of exact_fp default_hour_budget 1 2 :: 'e raised + int) = Inr 10"
proof -
  have "py_round (ln (5404319552844595 / 18014398509481984 * 3600) / ln 2) = 10"
    by (rule round_log2_10) simp_all
  then show ?thesis
    by (simp add: max_retries_of_def retries_formula_def default_hour_budget_def exact_fp_def)
qed


lemma str_int_502: "str_int 502 = ''502''"
  by (simp add: str_int_def str_nat.simps)

subsection \<open>Claims about the retry wrapper\<close>







text \<open>
  C4. A status error whose body is not a dict: the lookup of \<^verbatim>\<open>get\<close> on the body
  raises \<^verbatim>\<open>AttributeError\<close>, and that error leaves the wrapper (after one call and no
  sleep) in place of the exception with the status code and the pointer to the
  documentation. With a dict that has no \<^verbatim>\<open>message\<close> entry the pointer is used.
\<close>

theorem status_error_body_not_mapping:
  "wrapper exact_fp 1 default_hour_budget False 2 (\<lambda>i. 0)
      (\<lambda>i. Inl (StatusError 502 BodyNone) :: unit failure + nat)
     = Run (Inl AttributeError) 1 []
   \<and> wrapper exact_fp 1 default_hour_budget False 2 (\<lambda>i. 0)
      (\<lambda>i. Inl (StatusError 502 (BodyStr ''Bad Gateway'')) :: unit failure + nat)
     = Run (Inl AttributeError) 1 []
   \<and> wrapper exact_fp 1 default_hour_budget False 2 (\<lambda>i. 0)
      (\<lambda>i. Inl (StatusError 502 (BodyDict Map.empty)) :: unit failure + nat)
     = Run (Inl (Exception ''Error status 502 raised by OpenAI API: Please refer to `https://platform.openai.com/docs/guides/error-codes` for more information.'')) 1 []"
  by (simp add: wrapper_def default_max_retries retry_loop.simps str_int_502)

end
